theory Spec2Isabelle
  imports Complex_Main
begin

section \<open>Numbers\<close>

text \<open>
  The picking code of \<^verbatim>\<open>mplcursors/_pick_info.py\<close> computes with numpy floats.  A float
  is modelled as a real number or NaN: \<open>None\<close> is NaN, \<open>Some r\<close> is the finite value \<open>r\<close>.
  Rounding, overflow and the two infinities are not modelled.  Arithmetic propagates
  NaN, and every comparison with NaN is false, as in IEEE arithmetic.
\<close>

type_synonym npfloat = "real option"

definition fadd :: "npfloat \<Rightarrow> npfloat \<Rightarrow> npfloat" where
  "fadd a b = (case (a, b) of (Some x, Some y) \<Rightarrow> Some (x + y) | _ \<Rightarrow> None)"

definition fsub :: "npfloat \<Rightarrow> npfloat \<Rightarrow> npfloat" where
  "fsub a b = (case (a, b) of (Some x, Some y) \<Rightarrow> Some (x - y) | _ \<Rightarrow> None)"

definition fmul :: "npfloat \<Rightarrow> npfloat \<Rightarrow> npfloat" where
  "fmul a b = (case (a, b) of (Some x, Some y) \<Rightarrow> Some (x * y) | _ \<Rightarrow> None)"

text \<open>
  numpy's division does not raise: \<open>0 / 0\<close> is NaN.  A nonzero numerator over zero would
  be an infinity; the only divisor of the picking code that can be zero is the length of
  a segment, and then the numerator is zero or NaN as well (lemmas \<open>seg_ds_zero_iff\<close> and
  \<open>seg_dot_zero_length\<close> below), so that the model gives NaN for every division by zero.
  The mover of images can divide a nonzero number by zero; what \<open>None\<close> stands for
  there is said with its definitions.
\<close>

definition fdiv :: "npfloat \<Rightarrow> npfloat \<Rightarrow> npfloat" where
  "fdiv a b = (case (a, b) of
      (Some x, Some y) \<Rightarrow> if y = 0 then None else Some (x / y)
    | _ \<Rightarrow> None)"

definition fsqrt :: "npfloat \<Rightarrow> npfloat" where
  "fsqrt a = (case a of Some x \<Rightarrow> if x < 0 then None else Some (sqrt x) | None \<Rightarrow> None)"

definition flt :: "npfloat \<Rightarrow> npfloat \<Rightarrow> bool" where
  "flt a b = (case (a, b) of (Some x, Some y) \<Rightarrow> x < y | _ \<Rightarrow> False)"

definition feq :: "npfloat \<Rightarrow> npfloat \<Rightarrow> bool" where
  "feq a b = (case (a, b) of (Some x, Some y) \<Rightarrow> x = y | _ \<Rightarrow> False)"

text \<open>Python's \<^verbatim>\<open>max(a, b)\<close>: the first argument, unless the second is greater.\<close>

definition pymax :: "npfloat \<Rightarrow> npfloat \<Rightarrow> npfloat" where
  "pymax a b = (if flt a b then b else a)"


section \<open>The fractional index of a step plot\<close>

text \<open>
  \<^verbatim>\<open>class Index\<close>, with its fields \<^verbatim>\<open>int\<close>, \<^verbatim>\<open>x\<close>, \<^verbatim>\<open>y\<close>.
\<close>

record Index =
  Index_int :: int
  Index_x :: npfloat
  Index_y :: npfloat

definition Index_floor :: "Index \<Rightarrow> int" where
  "Index_floor self = Index_int self"

definition Index_ceil :: "Index \<Rightarrow> int" where
  "Index_ceil self =
     (if feq (pymax (Index_x self) (Index_y self)) (Some 0) then Index_int self
      else Index_int self + 1)"

text \<open>
  \<^verbatim>\<open>divmod(raw_index, 2)\<close> is floor division on Python integers, which is \<open>div\<close> and
  \<open>mod\<close> on \<open>int\<close>; \<^verbatim>\<open>not odd\<close> holds when the remainder is 0.
\<close>

definition pre_index :: "int \<Rightarrow> int \<Rightarrow> npfloat \<Rightarrow> Index" where
  "pre_index n_pts raw_index frac' =
     (let i = raw_index div 2; odd' = raw_index mod 2;
          (x, y) = (if odd' = 0 then (Some 0, frac') else (frac', Some 1))
      in \<lparr>Index_int = i, Index_x = x, Index_y = y\<rparr>)"

definition post_index :: "int \<Rightarrow> int \<Rightarrow> npfloat \<Rightarrow> Index" where
  "post_index n_pts raw_index frac' =
     (let i = raw_index div 2; odd' = raw_index mod 2;
          (x, y) = (if odd' = 0 then (frac', Some 0) else (Some 1, frac'))
      in \<lparr>Index_int = i, Index_x = x, Index_y = y\<rparr>)"

definition mid_index :: "int \<Rightarrow> int \<Rightarrow> npfloat \<Rightarrow> Index" where
  "mid_index n_pts raw_index frac0 =
     (let frac' = (if raw_index = 0 then fadd (Some (1/2)) (fdiv frac0 (Some 2))
                  else if raw_index = n_pts - 2 then fdiv frac0 (Some 2)
                  else frac0);
          quot = raw_index div 2; odd' = raw_index mod 2
      in if odd' = 0 then
           (if flt frac' (Some (1/2))
            then \<lparr>Index_int = quot - 1, Index_x = fadd frac' (Some (1/2)), Index_y = Some 1\<rparr>
            else \<lparr>Index_int = quot, Index_x = fsub frac' (Some (1/2)), Index_y = Some 0\<rparr>)
         else \<lparr>Index_int = quot, Index_x = Some (1/2), Index_y = frac'\<rparr>)"


section \<open>Errors\<close>

text \<open>The exceptions that leave the modelled functions.\<close>

datatype error = ValueError | TypeError | IndexError | KeyError | ZeroDivisionError


section \<open>Selections, targets and events\<close>

type_synonym point = "npfloat \<times> npfloat"

text \<open>
  \<^verbatim>\<open>Selection = namedtuple("Selection", "artist target dist annotation extras")\<close>.
  The artist and the target are typed by the kind of artist picked; the annotation and
  the extras are handles of the host, \<open>None\<close> in every Selection the picking code builds.
\<close>

type_synonym handle = nat

record ('a, 't) Selection =
  sel_artist :: 'a
  sel_target :: 't
  sel_dist :: npfloat
  sel_annotation :: "handle option"
  sel_extras :: "handle list option"

text \<open>
  The \<^verbatim>\<open>index\<close> attribute of a target is a numpy integer (a vertex found by a
  pick), a Python integer (a vertex reached by \<^verbatim>\<open>move\<close>, which converts with
  \<^verbatim>\<open>int(...)\<close>), a float (a position along a polyline drawn vertex to vertex) or an
  \<^verbatim>\<open>Index\<close> object (a step plot).  \<^verbatim>\<open>AttrArray\<close> is an array with an optional
  \<^verbatim>\<open>index\<close> attribute.
\<close>

datatype index = IntIndex int | PyIntIndex int | FloatIndex npfloat | StepIndex Index

record AttrArray =
  array_xy :: point
  array_index :: "index option"

text \<open>
  The pointer event of the host: \<^verbatim>\<open>x\<close>, \<^verbatim>\<open>y\<close> in pixels, \<^verbatim>\<open>xdata\<close>, \<^verbatim>\<open>ydata\<close> in data
  coordinates.
\<close>

record event =
  event_x :: real
  event_y :: real
  event_xdata :: real
  event_ydata :: real


section \<open>numpy and Python helpers\<close>

text \<open>
  \<^verbatim>\<open>np.nanargmin\<close>: the index of the first smallest entry that is not NaN; it raises
  ValueError on an empty array and on an array of NaN only.
\<close>

fun nanargmin_from :: "nat \<Rightarrow> (nat \<times> real) option \<Rightarrow> npfloat list \<Rightarrow> (nat \<times> real) option" where
  "nanargmin_from i best [] = best"
| "nanargmin_from i best (None # xs) = nanargmin_from (Suc i) best xs"
| "nanargmin_from i best (Some v # xs) =
     nanargmin_from (Suc i)
       (case best of None \<Rightarrow> Some (i, v)
        | Some (j, w) \<Rightarrow> if v < w then Some (i, v) else Some (j, w)) xs"

definition nanargmin :: "npfloat list \<Rightarrow> error + nat" where
  "nanargmin a = (case nanargmin_from 0 None a of None \<Rightarrow> Inl ValueError | Some (i, v) \<Rightarrow> Inr i)"

text \<open>
  \<^verbatim>\<open>ndarray.argmin\<close>: NaN counts as the minimum, so the index of the first NaN when
  there is one; ValueError on an empty array.
\<close>

definition argmin_np :: "npfloat list \<Rightarrow> error + nat" where
  "argmin_np a =
     (if a = [] then Inl ValueError
      else if None \<in> set a then Inr (length (takeWhile (\<lambda>v. v \<noteq> None) a))
      else nanargmin a)"

text \<open>
  \<^verbatim>\<open>min(sels, key=..., default=None)\<close>: the first element whose key no later element
  is below.
\<close>

definition pymin_key :: "('a \<Rightarrow> npfloat) \<Rightarrow> 'a list \<Rightarrow> 'a option" where
  "pymin_key k xs =
     (case xs of [] \<Rightarrow> None
      | x # rest \<Rightarrow> Some (foldl (\<lambda>m y. if flt (k y) (k m) then y else m) x rest))"

text \<open>\<^verbatim>\<open>np.clip(a, a_min, a_max)\<close> is \<^verbatim>\<open>minimum(maximum(a, a_min), a_max)\<close>; NaN propagates.\<close>

definition fclip :: "npfloat \<Rightarrow> npfloat \<Rightarrow> npfloat \<Rightarrow> npfloat" where
  "fclip a a_min a_max =
     (case (a, a_min, a_max) of
        (Some v, Some lo, Some hi) \<Rightarrow> Some (min (max v lo) hi)
      | _ \<Rightarrow> None)"

text \<open>
  \<^verbatim>\<open>.astype(int)\<close> truncates toward zero.  The cast of a value that is not finite
  does not raise; the integer it gives depends on the platform and is a parameter.
\<close>

definition astype_int :: "int \<Rightarrow> npfloat \<Rightarrow> int" where
  "astype_int nonfinite a =
     (case a of None \<Rightarrow> nonfinite | Some r \<Rightarrow> if 0 \<le> r then \<lfloor>r\<rfloor> else \<lceil>r\<rceil>)"

text \<open>
  numpy's integer \<^verbatim>\<open>%\<close> takes the sign of the divisor, as \<open>mod\<close> on \<open>int\<close> does, and
  gives 0 for a zero divisor.
\<close>

definition np_mod :: "int \<Rightarrow> int \<Rightarrow> int" where
  "np_mod a n = (if n = 0 then 0 else a mod n)"

text \<open>Arithmetic on the rows of an \<open>(n, 2)\<close> array.\<close>

definition vsub :: "point \<Rightarrow> point \<Rightarrow> point" where
  "vsub a b = (fsub (fst a) (fst b), fsub (snd a) (snd b))"

definition vadd :: "point \<Rightarrow> point \<Rightarrow> point" where
  "vadd a b = (fadd (fst a) (fst b), fadd (snd a) (snd b))"

definition vscale :: "npfloat \<Rightarrow> point \<Rightarrow> point" where
  "vscale c a = (fmul c (fst a), fmul c (snd a))"

text \<open>\<^verbatim>\<open>(v ** 2).sum(-1)\<close> and \<^verbatim>\<open>(v * u).sum(-1)\<close>.\<close>

definition sum_sq :: "point \<Rightarrow> npfloat" where
  "sum_sq v = fadd (fmul (fst v) (fst v)) (fmul (snd v) (snd v))"

definition vdot :: "point \<Rightarrow> point \<Rightarrow> npfloat" where
  "vdot v u = fadd (fmul (fst v) (fst u)) (fmul (snd v) (snd u))"


section \<open>Picking a line\<close>

text \<open>
  What \<^verbatim>\<open>compute_pick\<close> reads of a \<^verbatim>\<open>Line2D\<close>: marker and line style (a string or
  \<^verbatim>\<open>None\<close>), the data, the draw style, the transform to screen coordinates (applied to
  each point when it is affine, to the whole path otherwise), the inverse of the axes'
  data transform, and the pick radius.
\<close>

datatype drawstyle = draw_lines | draw_steps_pre | draw_steps_mid | draw_steps_post

record Line2D =
  get_marker :: "string option"
  get_linestyle :: "string option"
  get_xydata :: "point list"
  get_drawstyle :: drawstyle
  transform :: "point \<Rightarrow> point"
  is_affine :: bool
  transform_path :: "point list \<Rightarrow> point list"
  transData_inverted :: "point \<Rightarrow> point"
  pickradius :: real

text \<open>
  The step expansions \<^verbatim>\<open>cbook.pts_to_prestep\<close>, \<^verbatim>\<open>pts_to_midstep\<close> and
  \<^verbatim>\<open>pts_to_poststep\<close> belong to the host library; they are parameters of the model.
\<close>

record cbook =
  pts_to_prestep :: "point list \<Rightarrow> point list"
  pts_to_midstep :: "point list \<Rightarrow> point list"
  pts_to_poststep :: "point list \<Rightarrow> point list"

text \<open>The test \<^verbatim>\<open>... in ["None", "none", " ", "", None]\<close>.\<close>

definition not_drawn :: "string option \<Rightarrow> bool" where
  "not_drawn s = (s \<in> set [Some ''None'', Some ''none'', Some '' '', Some [], None])"

definition drawstyle_conv :: "cbook \<Rightarrow> drawstyle \<Rightarrow> point list \<Rightarrow> point list" where
  "drawstyle_conv cb st =
     (case st of
        draw_lines \<Rightarrow> (\<lambda>xys. xys)
      | draw_steps_pre \<Rightarrow> pts_to_prestep cb
      | draw_steps_mid \<Rightarrow> pts_to_midstep cb
      | draw_steps_post \<Rightarrow> pts_to_poststep cb)"

text \<open>
  The nearest point of each segment, lines 143 to 153.  For the segment from \<open>p\<close> to
  \<open>q\<close> and the event at \<open>xy\<close>: \<open>seg_ds\<close> is its length, \<open>seg_us\<close> its unit vector,
  \<open>seg_dot\<close> the clipped dot product, \<open>seg_proj\<close> the projection, \<open>seg_d2\<close> the squared
  distance from the event to the projection.
\<close>

definition seg_ds :: "point \<Rightarrow> point \<Rightarrow> npfloat" where
  "seg_ds p q = fsqrt (sum_sq (vsub q p))"

definition seg_us :: "point \<Rightarrow> point \<Rightarrow> point" where
  "seg_us p q = (let u = vsub q p; d = seg_ds p q in (fdiv (fst u) d, fdiv (snd u) d))"

definition seg_dot :: "point \<Rightarrow> point \<Rightarrow> point \<Rightarrow> npfloat" where
  "seg_dot xy p q = fclip (vdot (vsub xy p) (seg_us p q)) (Some 0) (seg_ds p q)"

definition seg_proj :: "point \<Rightarrow> point \<Rightarrow> point \<Rightarrow> point" where
  "seg_proj xy p q = vadd p (vscale (seg_dot xy p q) (seg_us p q))"

definition seg_d2 :: "point \<Rightarrow> point \<Rightarrow> point \<Rightarrow> npfloat" where
  "seg_d2 xy p q = sum_sq (vsub xy (seg_proj xy p q))"

text \<open>The pairs \<^verbatim>\<open>artist_xys[:-1]\<close>, \<^verbatim>\<open>artist_xys[1:]\<close>, and the arrays over them.\<close>

definition segments :: "point list \<Rightarrow> (point \<times> point) list" where
  "segments artist_xys = zip (butlast artist_xys) (tl artist_xys)"

definition polyline_ds :: "point list \<Rightarrow> npfloat list" where
  "polyline_ds artist_xys = map (\<lambda>(p, q). seg_ds p q) (segments artist_xys)"

definition polyline_dot :: "point \<Rightarrow> point list \<Rightarrow> npfloat list" where
  "polyline_dot xy artist_xys = map (\<lambda>(p, q). seg_dot xy p q) (segments artist_xys)"

definition polyline_projs :: "point \<Rightarrow> point list \<Rightarrow> point list" where
  "polyline_projs xy artist_xys = map (\<lambda>(p, q). seg_proj xy p q) (segments artist_xys)"

definition polyline_d2s :: "point \<Rightarrow> point list \<Rightarrow> npfloat list" where
  "polyline_d2s xy artist_xys = map (\<lambda>(p, q). seg_d2 xy p q) (segments artist_xys)"

text \<open>The index of a pick on the line, by draw style (lines 159 to 164).\<close>

definition line_index :: "drawstyle \<Rightarrow> int \<Rightarrow> nat \<Rightarrow> npfloat \<Rightarrow> index" where
  "line_index st n_pts argmin frac' =
     (case st of
        draw_lines \<Rightarrow> FloatIndex (fadd (Some (real argmin)) frac')
      | draw_steps_pre \<Rightarrow> StepIndex (pre_index n_pts (int argmin) frac')
      | draw_steps_mid \<Rightarrow> StepIndex (mid_index n_pts (int argmin) frac')
      | draw_steps_post \<Rightarrow> StepIndex (post_index n_pts (int argmin) frac'))"

text \<open>The candidate of the marker branch (lines 119 to 127).\<close>

definition marker_sel :: "Line2D \<Rightarrow> event \<Rightarrow> error + (Line2D, AttrArray) Selection" where
  "marker_sel artist ev =
     (let xy = (Some (event_x ev), Some (event_y ev));
          artist_data_xys = get_xydata artist;
          artist_xys = map (transform artist) artist_data_xys;
          d2s = map (\<lambda>p. sum_sq (vsub xy p)) artist_xys
      in case nanargmin d2s of
           Inl e \<Rightarrow> Inl e
         | Inr argmin \<Rightarrow>
             Inr \<lparr>sel_artist = artist,
                  sel_target = \<lparr>array_xy = get_xydata artist ! argmin,
                                array_index = Some (IntIndex (int argmin))\<rparr>,
                  sel_dist = fsqrt (d2s ! argmin),
                  sel_annotation = None, sel_extras = None\<rparr>)"

text \<open>The candidate of the line branch (lines 131 to 165).\<close>

definition line_sel :: "cbook \<Rightarrow> Line2D \<Rightarrow> event \<Rightarrow> error + (Line2D, AttrArray) Selection" where
  "line_sel cb artist ev =
     (let xy = (Some (event_x ev), Some (event_y ev));
          artist_data_xys = drawstyle_conv cb (get_drawstyle artist) (get_xydata artist);
          artist_xys = (if is_affine artist then map (transform artist) artist_data_xys
                        else transform_path artist artist_data_xys);
          ds = polyline_ds artist_xys;
          dot = polyline_dot xy artist_xys;
          projs = polyline_projs xy artist_xys;
          d2s = polyline_d2s xy artist_xys
      in case nanargmin d2s of
           Inl e \<Rightarrow> Inl e
         | Inr argmin \<Rightarrow>
             Inr \<lparr>sel_artist = artist,
                  sel_target =
                    \<lparr>array_xy = transData_inverted artist (projs ! argmin),
                     array_index =
                       (if is_affine artist
                        then Some (line_index (get_drawstyle artist) (int (length artist_xys))
                                     argmin (fdiv (dot ! argmin) (ds ! argmin)))
                        else None)\<rparr>,
                  sel_dist = fsqrt (d2s ! argmin),
                  sel_annotation = None, sel_extras = None\<rparr>)"

text \<open>The list \<^verbatim>\<open>sels\<close> of candidates when line 166 is reached.\<close>

definition Line2D_sels :: "cbook \<Rightarrow> Line2D \<Rightarrow> event \<Rightarrow> error + (Line2D, AttrArray) Selection list" where
  "Line2D_sels cb artist ev =
     (case (if \<not> not_drawn (get_marker artist)
            then (case marker_sel artist ev of Inl e \<Rightarrow> Inl e | Inr s \<Rightarrow> Inr [s])
            else Inr []) of
        Inl e \<Rightarrow> Inl e
      | Inr sels \<Rightarrow>
          if \<not> not_drawn (get_linestyle artist) \<and> length (get_xydata artist) > 1
          then (case line_sel cb artist ev of Inl e \<Rightarrow> Inl e | Inr s \<Rightarrow> Inr (sels @ [s]))
          else Inr sels)"

text \<open>\<^verbatim>\<open>compute_pick\<close> for a \<^verbatim>\<open>Line2D\<close>; lines 166 and 167 are the last step.\<close>

definition compute_pick_Line2D ::
  "cbook \<Rightarrow> Line2D \<Rightarrow> event \<Rightarrow> error + (Line2D, AttrArray) Selection option" where
  "compute_pick_Line2D cb artist ev =
     (case Line2D_sels cb artist ev of
        Inl e \<Rightarrow> Inl e
      | Inr sels \<Rightarrow>
          Inr (case pymin_key sel_dist sels of
                 None \<Rightarrow> None
               | Some sel \<Rightarrow>
                   if flt (sel_dist sel) (Some (pickradius artist)) then Some sel else None))"

section \<open>Picking a collection of scattered points\<close>

text \<open>
  What \<^verbatim>\<open>compute_pick\<close> reads of a \<^verbatim>\<open>PathCollection\<close>: the host's containment test,
  which returns whether the event hits and the indices \<^verbatim>\<open>info["ind"]\<close> of the points
  hit; the number of paths; the offsets; the axes' data transform.
\<close>

record PathCollection =
  pc_contains :: "event \<Rightarrow> bool \<times> nat list"
  get_paths_len :: nat
  get_offsets :: "point list"
  transData :: "point \<Rightarrow> point"

text \<open>
  The result is paired with the diagnostics emitted through \<^verbatim>\<open>warnings.warn\<close>, in
  order.  Indexing the offsets with the host's indices raises IndexError out of range.
\<close>

definition compute_pick_PathCollection ::
  "PathCollection \<Rightarrow> event
     \<Rightarrow> (error + (PathCollection, AttrArray) Selection option) \<times> string list" where
  "compute_pick_PathCollection artist ev =
     (let (contains, idxs) = pc_contains artist ev
      in if \<not> contains then (Inr None, [])
         else if get_paths_len artist \<noteq> 1
         then (Inr None,
               [''Only PathCollections created through `plt.scatter` are supported.''])
         else if \<exists>i \<in> set idxs. length (get_offsets artist) \<le> i then (Inl IndexError, [])
         else
           let offsets = map (\<lambda>i. get_offsets artist ! i) idxs;
               d2 = map (\<lambda>p. sum_sq (vsub (transData artist p)
                                         (Some (event_x ev), Some (event_y ev)))) offsets
           in case argmin_np d2 of
                Inl e \<Rightarrow> (Inl e, [])
              | Inr argmin \<Rightarrow>
                  (Inr (Some \<lparr>sel_artist = artist,
                              sel_target = \<lparr>array_xy = offsets ! argmin,
                                            array_index = Some (IntIndex (int (idxs ! argmin)))\<rparr>,
                              sel_dist = fsqrt (d2 ! argmin),
                              sel_annotation = None, sel_extras = None\<rparr>), []))"


section \<open>Picking a filled region\<close>

text \<open>
  An image: the host's containment test, whether the artist is an \<^verbatim>\<open>AxesImage\<close> itself
  and not an instance of a subclass, the extent \<open>(left, right, bottom, top)\<close> and the
  shape of the array, \<open>[rows, columns]\<close> for scalar data and \<open>[rows, columns, 3]\<close> or
  \<open>[rows, columns, 4]\<close> for a colour image.  A patch: the host's containment test.
\<close>

record AxesImage =
  img_contains :: "event \<Rightarrow> bool"
  img_exact :: bool
  get_extent :: "real \<times> real \<times> real \<times> real"
  get_array_shape :: "nat list"

record Patch =
  patch_contains :: "event \<Rightarrow> bool"

text \<open>The handler registered for both \<^verbatim>\<open>AxesImage\<close> and \<^verbatim>\<open>Patch\<close> (lines 192 to 198).\<close>

definition compute_pick_filled ::
  "('a \<Rightarrow> event \<Rightarrow> bool) \<Rightarrow> 'a \<Rightarrow> event \<Rightarrow> ('a, point) Selection option" where
  "compute_pick_filled contains_of artist ev =
     (if \<not> contains_of artist ev then None
      else Some \<lparr>sel_artist = artist,
                 sel_target = (Some (event_xdata ev), Some (event_ydata ev)),
                 sel_dist = Some 0, sel_annotation = None, sel_extras = None\<rparr>)"

definition compute_pick_AxesImage ::
  "AxesImage \<Rightarrow> event \<Rightarrow> (AxesImage, point) Selection option" where
  "compute_pick_AxesImage = compute_pick_filled img_contains"

definition compute_pick_Patch ::
  "Patch \<Rightarrow> event \<Rightarrow> (Patch, point) Selection option" where
  "compute_pick_Patch = compute_pick_filled patch_contains"


section \<open>Moving a selection\<close>

text \<open>
  \<^verbatim>\<open>np.ceil\<close> and \<^verbatim>\<open>np.floor\<close> of a target's index, converted by \<^verbatim>\<open>int(...)\<close>;
  \<^verbatim>\<open>int\<close> of NaN raises ValueError.  On an \<^verbatim>\<open>Index\<close> object they call its \<^verbatim>\<open>ceil\<close> and
  \<^verbatim>\<open>floor\<close> methods, which is what the class defines them for: this is numpy before
  version 1.17.  From 1.17 on numpy calls \<^verbatim>\<open>math.ceil\<close> and \<^verbatim>\<open>math.floor\<close> instead, which
  an \<^verbatim>\<open>Index\<close> does not support, so that there the two functions raise TypeError on
  an \<^verbatim>\<open>Index\<close>; the model follows the numpy the class was written for.
\<close>

fun index_ceil :: "index \<Rightarrow> error + int" where
  "index_ceil (IntIndex i) = Inr i"
| "index_ceil (PyIntIndex i) = Inr i"
| "index_ceil (FloatIndex None) = Inl ValueError"
| "index_ceil (FloatIndex (Some r)) = Inr \<lceil>r\<rceil>"
| "index_ceil (StepIndex ix) = Inr (Index_ceil ix)"

fun index_floor :: "index \<Rightarrow> error + int" where
  "index_floor (IntIndex i) = Inr i"
| "index_floor (PyIntIndex i) = Inr i"
| "index_floor (FloatIndex None) = Inl ValueError"
| "index_floor (FloatIndex (Some r)) = Inr \<lfloor>r\<rfloor>"
| "index_floor (StepIndex ix) = Inr (Index_floor ix)"

text \<open>
  \<^verbatim>\<open>new_idx\<close> of lines 265 to 267: a Python integer after \<^verbatim>\<open>left\<close> and \<^verbatim>\<open>right\<close>, the
  index as it is after any other key.
\<close>

definition new_idx_of :: "index \<Rightarrow> string \<Rightarrow> error + index" where
  "new_idx_of idx key =
     (if key = ''left''
      then (case index_ceil idx of Inl e \<Rightarrow> Inl e | Inr c \<Rightarrow> Inr (PyIntIndex (c - 1)))
      else if key = ''right''
      then (case index_floor idx of Inl e \<Rightarrow> Inl e | Inr f \<Rightarrow> Inr (PyIntIndex (f + 1)))
      else Inr idx)"

text \<open>
  \<^verbatim>\<open>move\<close> for a \<^verbatim>\<open>Line2D\<close>.  \<^verbatim>\<open>artist_xys[new_idx % len(artist_xys)]\<close> takes an
  integer.  On a line without points, \<^verbatim>\<open>%\<close> of a Python integer by 0 raises
  ZeroDivisionError, while \<^verbatim>\<open>%\<close> of a numpy integer by 0 gives 0 and the array access
  raises IndexError.  A float is not a valid array index (IndexError), and an \<^verbatim>\<open>Index\<close>
  object has no \<^verbatim>\<open>%\<close> (TypeError).
\<close>

definition move_Line2D ::
  "(Line2D, AttrArray) Selection \<Rightarrow> string \<Rightarrow> error + (Line2D, AttrArray) Selection" where
  "move_Line2D sel key =
     (case array_index (sel_target sel) of
        None \<Rightarrow> Inr sel
      | Some idx \<Rightarrow>
          (case new_idx_of idx key of
             Inl e \<Rightarrow> Inl e
           | Inr new_idx \<Rightarrow>
               let artist_xys = get_xydata (sel_artist sel)
               in (case new_idx of
                     IntIndex i \<Rightarrow>
                       if length artist_xys = 0 then Inl IndexError
                       else Inr (sel\<lparr>sel_target :=
                                       \<lparr>array_xy = artist_xys ! nat (i mod int (length artist_xys)),
                                        array_index = Some new_idx\<rparr>,
                                     sel_dist := Some 0\<rparr>)
                   | PyIntIndex i \<Rightarrow>
                       if length artist_xys = 0 then Inl ZeroDivisionError
                       else Inr (sel\<lparr>sel_target :=
                                       \<lparr>array_xy = artist_xys ! nat (i mod int (length artist_xys)),
                                        array_index = Some new_idx\<rparr>,
                                     sel_dist := Some 0\<rparr>)
                   | FloatIndex f \<Rightarrow> Inl IndexError
                   | StepIndex ix \<Rightarrow> Inl TypeError)))"

text \<open>
  \<^verbatim>\<open>move\<close> for an \<^verbatim>\<open>AxesImage\<close>.  In this part \<open>None\<close> stands for any value that is
  not finite, NaN or an infinity: no such value is compared or divided by, and
  arithmetic keeps it not finite.

  Line 281 reverses the shape, and line 282 multiplies it with an array of two
  entries: a shape of two entries goes with them one by one, a shape of one entry is
  broadcast to both, and any other shape, that of a colour image among them, raises
  ValueError.
\<close>

definition ns_of_shape :: "nat list \<Rightarrow> error + nat \<times> nat" where
  "ns_of_shape shape =
     (case rev shape of
        [nx, ny] \<Rightarrow> Inr (nx, ny)
      | [n] \<Rightarrow> Inr (n, n)
      | _ \<Rightarrow> Inl ValueError)"

text \<open>The dictionary of line 284.\<close>

definition key_delta :: "string \<rightharpoonup> int \<times> int" where
  "key_delta = map_of [(''left'', (-1, 0)), (''right'', (1, 0)), (''up'', (0, 1)), (''down'', (0, -1))]"

text \<open>
  Lines 282 and 286 along one axis, from \<open>lo\<close> to \<open>hi\<close> with \<open>n\<close> cells: the index of
  the cell of a coordinate, and the centre of the cell of an index.  Both divide by
  zero, without raising, on an extent of width 0 and on an array without cells.
\<close>

definition axis_index :: "int \<Rightarrow> npfloat \<Rightarrow> real \<Rightarrow> real \<Rightarrow> nat \<Rightarrow> int" where
  "axis_index nonfinite t lo hi n =
     astype_int nonfinite
       (fmul (fdiv (fsub t (Some lo)) (fsub (Some hi) (Some lo))) (Some (real n)))"

definition axis_center :: "int \<Rightarrow> real \<Rightarrow> real \<Rightarrow> nat \<Rightarrow> npfloat" where
  "axis_center i lo hi n =
     fadd (fmul (fdiv (Some (real_of_int i + 1/2)) (Some (real n))) (fsub (Some hi) (Some lo)))
       (Some lo)"

definition cell_of :: "int \<Rightarrow> AxesImage \<Rightarrow> nat \<times> nat \<Rightarrow> point \<Rightarrow> int \<times> int" where
  "cell_of nonfinite artist ns target =
     (let (left, right, bottom, top) = get_extent artist
      in (axis_index nonfinite (fst target) left right (fst ns),
          axis_index nonfinite (snd target) bottom top (snd ns)))"

definition cell_center :: "AxesImage \<Rightarrow> nat \<times> nat \<Rightarrow> int \<times> int \<Rightarrow> point" where
  "cell_center artist ns idxs =
     (let (left, right, bottom, top) = get_extent artist
      in (axis_center (fst idxs) left right (fst ns),
          axis_center (snd idxs) bottom top (snd ns)))"

definition move_AxesImage ::
  "int \<Rightarrow> (AxesImage, point) Selection \<Rightarrow> string \<Rightarrow> error + (AxesImage, point) Selection" where
  "move_AxesImage nonfinite sel key =
     (if \<not> img_exact (sel_artist sel) then Inr sel
      else
        let artist = sel_artist sel
        in case ns_of_shape (get_array_shape artist) of
             Inl e \<Rightarrow> Inl e
           | Inr ns \<Rightarrow>
               let idxs = cell_of nonfinite artist ns (sel_target sel)
               in case key_delta key of
                    None \<Rightarrow> Inl KeyError
                  | Some d \<Rightarrow>
                      let idxs' = (np_mod (fst idxs + fst d) (int (fst ns)),
                                   np_mod (snd idxs + snd d) (int (snd ns)))
                      in Inr (sel\<lparr>sel_target := cell_center artist ns idxs'\<rparr>))"


section \<open>Example artists\<close>

text \<open>
  An image of one row and three columns over the extent \<open>(0, 3, 0, 1)\<close>, a selection
  on it, the same image and selection with an RGB array, the integer that the cast of a
  value that is not finite gives on x86-64, and a collection with two paths whose
  containment test hits left of pixel 100.
\<close>

definition ex_image :: AxesImage where
  "ex_image = \<lparr>img_contains = (\<lambda>ev. 0 \<le> event_xdata ev \<and> event_xdata ev \<le> 3
                                   \<and> 0 \<le> event_ydata ev \<and> event_ydata ev \<le> 1),
               img_exact = True, get_extent = (0, 3, 0, 1), get_array_shape = [1, 3]\<rparr>"

definition ex_image_sel :: "real \<times> real \<Rightarrow> (AxesImage, point) Selection" where
  "ex_image_sel t = \<lparr>sel_artist = ex_image, sel_target = (Some (fst t), Some (snd t)),
                     sel_dist = Some 3, sel_annotation = Some 7, sel_extras = Some [1, 2]\<rparr>"

definition ex_rgb_image :: AxesImage where
  "ex_rgb_image = ex_image\<lparr>get_array_shape := [1, 3, 3]\<rparr>"

definition ex_rgb_sel :: "(AxesImage, point) Selection" where
  "ex_rgb_sel = \<lparr>sel_artist = ex_rgb_image, sel_target = (Some (1/2), Some (1/2)),
                  sel_dist = Some 0, sel_annotation = None, sel_extras = None\<rparr>"

definition ex_cast :: int where
  "ex_cast = - (2 ^ 63)"

definition ex_tri_collection :: PathCollection where
  "ex_tri_collection =
     \<lparr>pc_contains = (\<lambda>ev. if event_x ev < 100 then (True, [0]) else (False, [])),
      get_paths_len = 2, get_offsets = [(Some 0, Some 0)], transData = (\<lambda>p. p)\<rparr>"


text \<open>
  A line of two points drawn vertex to vertex with markers, in screen coordinates
  (the transforms are the identity), with pick radius 5; step expansions that are not
  used by it; and a pointer event at pixel \<open>(4, 3)\<close>, with the two candidates it gives.
\<close>

definition ex_line :: Line2D where
  "ex_line = \<lparr>get_marker = Some ''o'', get_linestyle = Some ''-'',
               get_xydata = [(Some 0, Some 0), (Some 8, Some 0)],
               get_drawstyle = draw_lines, transform = (\<lambda>p. p), is_affine = True,
               transform_path = (\<lambda>xys. xys), transData_inverted = (\<lambda>p. p),
               pickradius = 5\<rparr>"

definition ex_cbook :: cbook where
  "ex_cbook = \<lparr>pts_to_prestep = (\<lambda>xys. xys), pts_to_midstep = (\<lambda>xys. xys),
                pts_to_poststep = (\<lambda>xys. xys)\<rparr>"

definition ex_event :: event where
  "ex_event = \<lparr>event_x = 4, event_y = 3, event_xdata = 4, event_ydata = 3\<rparr>"

definition ex_marker_cand :: "(Line2D, AttrArray) Selection" where
  "ex_marker_cand =
     \<lparr>sel_artist = ex_line,
      sel_target = \<lparr>array_xy = (Some 0, Some 0), array_index = Some (IntIndex 0)\<rparr>,
      sel_dist = Some 5, sel_annotation = None, sel_extras = None\<rparr>"

definition ex_line_cand :: "(Line2D, AttrArray) Selection" where
  "ex_line_cand =
     \<lparr>sel_artist = ex_line,
      sel_target = \<lparr>array_xy = (Some 4, Some 0),
                    array_index = Some (FloatIndex (Some (1/2)))\<rparr>,
      sel_dist = Some 3, sel_annotation = None, sel_extras = None\<rparr>"


text \<open>
  The example line without data; and a selection on the example line that carries the
  index of a step plot, as a pick on a step-after line gives.
\<close>

definition ex_empty_line :: Line2D where
  "ex_empty_line = ex_line\<lparr>get_xydata := []\<rparr>"

definition ex_step_sel :: "(Line2D, AttrArray) Selection" where
  "ex_step_sel =
     \<lparr>sel_artist = ex_line,
      sel_target = \<lparr>array_xy = (Some 4, Some 0),
                    array_index = Some (StepIndex \<lparr>Index_int = 0, Index_x = Some (1/2),
                                                  Index_y = Some 0\<rparr>)\<rparr>,
      sel_dist = Some 3, sel_annotation = None, sel_extras = None\<rparr>"


section \<open>Properties of the index encoders\<close>

lemma mid_index_first:
  "mid_index n_pts 0 (Some f) = \<lparr>Index_int = 0, Index_x = Some (f / 2), Index_y = Some 0\<rparr>"
  if "0 \<le> f"
  using that by (simp add: mid_index_def fadd_def fdiv_def fsub_def flt_def)

lemma mid_index_floor_lower:
  assumes "0 \<le> raw" "0 \<le> f"
  shows "0 \<le> Index_floor (mid_index n_pts raw (Some f))"
proof (cases "raw = 0")
  case True
  with assms show ?thesis by (simp add: mid_index_first Index_floor_def)
next
  case False
  with assms have "1 \<le> raw" by simp
  then have "raw mod 2 = 0 \<longrightarrow> 1 \<le> raw div 2" by presburger
  moreover from assms have "0 \<le> raw div 2" by simp
  ultimately show ?thesis
    by (auto simp: mid_index_def Index_floor_def Let_def)
qed

lemma mid_index_floor_upper:
  assumes "raw \<le> n_pts - 2"
  shows "Index_floor (mid_index n_pts raw fr) < n_pts div 2"
proof -
  from assms have "raw div 2 < n_pts div 2" by presburger
  then show ?thesis
    by (simp add: mid_index_def Index_floor_def Let_def)
qed

text \<open>
  C2.  Step-mid encoder.  With \<open>n_pts\<close> expanded points (\<open>n_pts div 2\<close> data vertices),
  a raw segment index in \<open>[0, n_pts - 2]\<close> and an offset in \<open>[0, 1]\<close>:
  on segment 0 the offset is rescaled to \<open>1/2 + f/2\<close>, so that the even branch stores
  \<open>f/2\<close> on the x axis at vertex 0; on the last segment \<open>n_pts - 2\<close> (when it is not
  segment 0) the offset is rescaled to \<open>f/2\<close> before the even/odd split; the floor of the
  result is a vertex index, neither negative nor past the last vertex; and segment 0
  with offset \<open>1/2\<close> has floor 0.
\<close>

theorem mid_index_valid_vertex:
  assumes "2 \<le> n_pts" and "0 \<le> raw" and "raw \<le> n_pts - 2" and "0 \<le> f" and "f \<le> 1"
  shows "(raw = 0 \<longrightarrow>
            mid_index n_pts raw (Some f)
              = \<lparr>Index_int = 0, Index_x = Some ((1/2 + f/2) - 1/2), Index_y = Some 0\<rparr>)
       \<and> (raw \<noteq> 0 \<and> raw = n_pts - 2 \<longrightarrow>
            mid_index n_pts raw (Some f)
              = (if raw mod 2 = 0
                 then if f / 2 < 1/2
                      then \<lparr>Index_int = raw div 2 - 1, Index_x = Some (f/2 + 1/2), Index_y = Some 1\<rparr>
                      else \<lparr>Index_int = raw div 2, Index_x = Some (f/2 - 1/2), Index_y = Some 0\<rparr>
                 else \<lparr>Index_int = raw div 2, Index_x = Some (1/2), Index_y = Some (f/2)\<rparr>))
       \<and> 0 \<le> Index_floor (mid_index n_pts raw (Some f))
       \<and> Index_floor (mid_index n_pts raw (Some f)) < n_pts div 2
       \<and> Index_floor (mid_index n_pts 0 (Some (1/2))) = 0"
proof -
  have first: "raw = 0 \<longrightarrow>
      mid_index n_pts raw (Some f)
        = \<lparr>Index_int = 0, Index_x = Some ((1/2 + f/2) - 1/2), Index_y = Some 0\<rparr>"
    using assms(4) by (simp add: mid_index_first)
  have last: "raw \<noteq> 0 \<and> raw = n_pts - 2 \<longrightarrow>
      mid_index n_pts raw (Some f)
        = (if raw mod 2 = 0
           then if f / 2 < 1/2
                then \<lparr>Index_int = raw div 2 - 1, Index_x = Some (f/2 + 1/2), Index_y = Some 1\<rparr>
                else \<lparr>Index_int = raw div 2, Index_x = Some (f/2 - 1/2), Index_y = Some 0\<rparr>
           else \<lparr>Index_int = raw div 2, Index_x = Some (1/2), Index_y = Some (f/2)\<rparr>)"
    by (simp add: mid_index_def fadd_def fdiv_def fsub_def flt_def Let_def)
  have lo: "0 \<le> Index_floor (mid_index n_pts raw (Some f))"
    using assms(2,4) by (rule mid_index_floor_lower)
  have hi: "Index_floor (mid_index n_pts raw (Some f)) < n_pts div 2"
    using assms(3) by (rule mid_index_floor_upper)
  have half: "Index_floor (mid_index n_pts 0 (Some (1/2))) = 0"
    by (simp add: mid_index_first Index_floor_def)
  from first last lo hi half show ?thesis by blast
qed

theorem mid_index_valid_vertex_witness:
  "mid_index 10 8 (Some (1/2))
     = \<lparr>Index_int = 3, Index_x = Some (3/4), Index_y = Some 1\<rparr>
   \<and> 0 \<le> Index_floor (mid_index 10 8 (Some (1/2)))
   \<and> Index_floor (mid_index 10 8 (Some (1/2))) < 5
   \<and> mid_index 10 0 (Some (1/2))
     = \<lparr>Index_int = 0, Index_x = Some (1/4), Index_y = Some 0\<rparr>"
  using mid_index_valid_vertex [of 10 8 "1/2"] mid_index_valid_vertex [of 10 0 "1/2"]
  by (simp add: Index_floor_def)

text \<open>
  C3.  Step-before encoder, as the code has it: the raw segment index splits into the
  vertex index \<open>raw div 2\<close> and the phase \<open>raw mod 2\<close>.  On an even phase the offset is
  stored on the y axis and x is 0; on an odd phase the offset is stored on the x axis
  and y is anchored at 1.
\<close>

theorem pre_index_phases:
  "Index_int (pre_index n_pts raw fr) = raw div 2
   \<and> (raw mod 2 = 0 \<longrightarrow>
        Index_x (pre_index n_pts raw fr) = Some 0 \<and> Index_y (pre_index n_pts raw fr) = fr)
   \<and> (raw mod 2 \<noteq> 0 \<longrightarrow>
        Index_x (pre_index n_pts raw fr) = fr \<and> Index_y (pre_index n_pts raw fr) = Some 1)"
  by (simp add: pre_index_def Let_def)

theorem pre_index_phases_witness:
  "Index_int (pre_index 9 3 (Some (1/4))) = 1
   \<and> Index_x (pre_index 9 3 (Some (1/4))) = Some (1/4)
   \<and> Index_y (pre_index 9 3 (Some (1/4))) = Some 1
   \<and> Index_x (pre_index 9 2 (Some (1/4))) = Some 0
   \<and> Index_y (pre_index 9 2 (Some (1/4))) = Some (1/4)"
  using pre_index_phases [of 9 3 "Some (1/4)"] pre_index_phases [of 9 2 "Some (1/4)"]
  by simp

text \<open>
  The reading "even phase: offset on the x axis; odd phase: offset on the y axis, the
  other coordinate 1" fails on both phases: at raw index 0 the x coordinate is 0, not
  the offset, and at raw index 1 the y coordinate is 1, not the offset.
\<close>

theorem pre_index_x_axis_counterexample:
  "\<not> (Index_x (pre_index 9 0 (Some (1/2))) = Some (1/2))
   \<and> \<not> (Index_y (pre_index 9 1 (Some (1/2))) = Some (1/2)
        \<and> Index_x (pre_index 9 1 (Some (1/2))) = Some 1)"
  by (simp add: pre_index_def Let_def)


section \<open>Properties of picking filled regions and collections\<close>

text \<open>
  C7.  For an image and for a patch, and every pointer event: when the host's
  containment test reports the event inside, \<open>compute_pick\<close> returns the Selection of
  that artist with distance exactly 0 whose target is the event's data coordinates;
  when it reports outside, \<open>compute_pick\<close> returns no match.
\<close>

theorem compute_pick_filled_region:
  "(img_contains im ev \<longrightarrow>
      compute_pick_AxesImage im ev
        = Some \<lparr>sel_artist = im, sel_target = (Some (event_xdata ev), Some (event_ydata ev)),
                sel_dist = Some 0, sel_annotation = None, sel_extras = None\<rparr>)
   \<and> (\<not> img_contains im ev \<longrightarrow> compute_pick_AxesImage im ev = None)
   \<and> (patch_contains pa ev \<longrightarrow>
      compute_pick_Patch pa ev
        = Some \<lparr>sel_artist = pa, sel_target = (Some (event_xdata ev), Some (event_ydata ev)),
                sel_dist = Some 0, sel_annotation = None, sel_extras = None\<rparr>)
   \<and> (\<not> patch_contains pa ev \<longrightarrow> compute_pick_Patch pa ev = None)"
  by (simp add: compute_pick_AxesImage_def compute_pick_Patch_def compute_pick_filled_def)

theorem compute_pick_filled_region_witness:
  "compute_pick_AxesImage ex_image
       \<lparr>event_x = 40, event_y = 50, event_xdata = 1, event_ydata = 1/2\<rparr>
     = Some \<lparr>sel_artist = ex_image, sel_target = (Some 1, Some (1/2)),
             sel_dist = Some 0, sel_annotation = None, sel_extras = None\<rparr>
   \<and> compute_pick_AxesImage ex_image
       \<lparr>event_x = 40, event_y = 50, event_xdata = 4, event_ydata = 1/2\<rparr> = None
   \<and> compute_pick_Patch \<lparr>patch_contains = (\<lambda>ev. event_x ev < 100)\<rparr>
       \<lparr>event_x = 40, event_y = 50, event_xdata = 1, event_ydata = 1/2\<rparr>
     = Some \<lparr>sel_artist = \<lparr>patch_contains = (\<lambda>ev. event_x ev < 100)\<rparr>,
             sel_target = (Some 1, Some (1/2)),
             sel_dist = Some 0, sel_annotation = None, sel_extras = None\<rparr>
   \<and> compute_pick_Patch \<lparr>patch_contains = (\<lambda>ev. event_x ev < 100)\<rparr>
       \<lparr>event_x = 140, event_y = 50, event_xdata = 1, event_ydata = 1/2\<rparr> = None"
  using compute_pick_filled_region
          [of ex_image "\<lparr>event_x = 40, event_y = 50, event_xdata = 1, event_ydata = 1/2\<rparr>"
              "\<lparr>patch_contains = (\<lambda>ev. event_x ev < 100)\<rparr>"]
        compute_pick_filled_region
          [of ex_image "\<lparr>event_x = 40, event_y = 50, event_xdata = 4, event_ydata = 1/2\<rparr>"
              "\<lparr>patch_contains = (\<lambda>ev. event_x ev < 100)\<rparr>"]
        compute_pick_filled_region
          [of ex_image "\<lparr>event_x = 140, event_y = 50, event_xdata = 1, event_ydata = 1/2\<rparr>"
              "\<lparr>patch_contains = (\<lambda>ev. event_x ev < 100)\<rparr>"]
  by (simp add: ex_image_def)

text \<open>
  C9.  For a collection that uses more than one path (or none), \<open>compute_pick\<close>
  returns no match for every pointer event; it emits its diagnostic when the host's
  containment test reports a hit, and emits nothing when it reports a miss.
\<close>

theorem multipath_collection_no_match:
  assumes "get_paths_len artist \<noteq> 1"
  shows "fst (compute_pick_PathCollection artist ev) = Inr None
       \<and> (fst (pc_contains artist ev) \<longrightarrow>
            snd (compute_pick_PathCollection artist ev)
              = [''Only PathCollections created through `plt.scatter` are supported.''])
       \<and> (\<not> fst (pc_contains artist ev) \<longrightarrow> snd (compute_pick_PathCollection artist ev) = [])"
  using assms by (simp add: compute_pick_PathCollection_def split: prod.split)

theorem multipath_collection_no_match_witness:
  "compute_pick_PathCollection ex_tri_collection
       \<lparr>event_x = 40, event_y = 50, event_xdata = 1, event_ydata = 1/2\<rparr>
     = (Inr None, [''Only PathCollections created through `plt.scatter` are supported.''])
   \<and> compute_pick_PathCollection ex_tri_collection
       \<lparr>event_x = 200, event_y = 50, event_xdata = 5, event_ydata = 1/2\<rparr>
     = (Inr None, [])"
  using multipath_collection_no_match
          [of ex_tri_collection "\<lparr>event_x = 40, event_y = 50, event_xdata = 1, event_ydata = 1/2\<rparr>"]
        multipath_collection_no_match
          [of ex_tri_collection "\<lparr>event_x = 200, event_y = 50, event_xdata = 5, event_ydata = 1/2\<rparr>"]
  by (simp add: ex_tri_collection_def prod_eq_iff)

text \<open>
  The containment test comes first: a pointer event that misses a collection of two
  paths returns no match and emits no diagnostic.
\<close>

theorem multipath_collection_diagnostic_counterexample:
  "snd (compute_pick_PathCollection ex_tri_collection
          \<lparr>event_x = 140, event_y = 50, event_xdata = 1, event_ydata = 1/2\<rparr>) = []"
  by (simp add: compute_pick_PathCollection_def ex_tri_collection_def)


section \<open>Properties of moving a selection on an image\<close>

text \<open>
  Along one axis with at least one cell: the centre of a cell is finite; on an extent
  of width 0 every cell has the same centre; otherwise the centre of a cell is mapped
  back to its index.  Either way a step from the centre of a cell leads to the centre
  of the cell one step away, modulo the number of cells.
\<close>

lemma axis_center_pos:
  assumes "0 < n"
  shows "axis_center i lo hi n = Some ((real_of_int i + 1/2) / real n * (hi - lo) + lo)"
  using assms by (simp add: axis_center_def fdiv_def fmul_def fsub_def fadd_def)

lemma axis_center_flat:
  assumes "0 < n"
  shows "axis_center i lo lo n = Some lo"
  using assms by (simp add: axis_center_pos)

lemma axis_index_center:
  assumes "0 < n" and "hi \<noteq> lo" and "0 \<le> c"
  shows "axis_index nonfinite (axis_center c lo hi n) lo hi n = c"
proof -
  have "((real_of_int c + 1/2) / real n * (hi - lo) + lo - lo) / (hi - lo) * real n
          = real_of_int c + 1/2"
    using assms(1,2) by simp
  moreover have "\<lfloor>real_of_int c + 1/2\<rfloor> = c" by linarith
  ultimately show ?thesis
    using assms
    by (simp add: axis_index_def axis_center_pos fsub_def fdiv_def fmul_def astype_int_def
          del: add_diff_cancel_right')
qed

lemma axis_step:
  assumes "0 < n" and "0 \<le> c"
  shows "axis_center (np_mod (axis_index nonfinite (axis_center c lo hi n) lo hi n + d) (int n)) lo hi n
           = axis_center ((c + d) mod int n) lo hi n"
proof (cases "hi = lo")
  case True
  with assms(1) show ?thesis by (simp add: axis_center_flat)
next
  case False
  with assms show ?thesis by (simp add: axis_index_center np_mod_def)
qed

lemma move_AxesImage_cell:
  assumes "img_exact (sel_artist sel)"
    and "get_array_shape (sel_artist sel) = [ny, nx]"
    and "0 < nx" and "0 < ny" and "0 \<le> cx" and "0 \<le> cy"
    and "sel_target sel = cell_center (sel_artist sel) (nx, ny) (cx, cy)"
    and "key_delta key = Some (dx, dy)"
  shows "move_AxesImage nonfinite sel key
           = Inr (sel\<lparr>sel_target := cell_center (sel_artist sel) (nx, ny)
                                      ((cx + dx) mod int nx, (cy + dy) mod int ny)\<rparr>)"
proof -
  obtain xl xr yb yt where ext: "get_extent (sel_artist sel) = (xl, xr, yb, yt)"
    by (cases "get_extent (sel_artist sel)")
  have ns: "ns_of_shape (get_array_shape (sel_artist sel)) = Inr (nx, ny)"
    by (simp add: assms(2) ns_of_shape_def)
  show ?thesis
    using assms(1,8)
    by (simp add: move_AxesImage_def ns assms(7) cell_of_def cell_center_def ext
          axis_step [OF assms(3,5)] axis_step [OF assms(4,6)])
qed

text \<open>
  On an image whose array has two axes, each of the four arrow keys gives a Selection
  that differs from the input in the target only; the distance is not reset to 0.
\<close>

lemma move_AxesImage_frame:
  assumes "img_exact (sel_artist sel)"
    and "length (get_array_shape (sel_artist sel)) = 2"
    and "key \<in> {''left'', ''right'', ''up'', ''down''}"
  shows "\<exists>s'. move_AxesImage nonfinite sel key = Inr s'
           \<and> sel_artist s' = sel_artist sel \<and> sel_dist s' = sel_dist sel
           \<and> sel_annotation s' = sel_annotation sel \<and> sel_extras s' = sel_extras sel
           \<and> s' = sel\<lparr>sel_target := sel_target s'\<rparr>"
proof -
  from assms(3) obtain d where "key_delta key = Some d"
    by (auto simp: key_delta_def)
  moreover from assms(2) obtain ny nx where "get_array_shape (sel_artist sel) = [ny, nx]"
    by (cases "get_array_shape (sel_artist sel)" rule: list.exhaust)
       (auto simp: length_Suc_conv)
  ultimately show ?thesis
    using assms(1) by (simp add: move_AxesImage_def ns_of_shape_def Let_def)
qed

text \<open>
  C10.  On an \<open>AxesImage\<close> that is not an instance of a subclass and holds a colour
  image, an array of three axes, \<open>move\<close> raises ValueError for every key: line 282
  multiplies two entries with the three of the reversed shape.  No Selection is
  returned.
\<close>

theorem move_AxesImage_colour_raises:
  assumes "img_exact (sel_artist sel)"
    and "3 \<le> length (get_array_shape (sel_artist sel))"
  shows "move_AxesImage nonfinite sel key = Inl ValueError"
proof -
  from assms(2) have "3 \<le> length (rev (get_array_shape (sel_artist sel)))" by simp
  then obtain a b c rest where "rev (get_array_shape (sel_artist sel)) = a # b # c # rest"
    unfolding numeral_3_eq_3 Suc_le_length_iff by blast
  with assms(1) show ?thesis
    by (simp add: move_AxesImage_def ns_of_shape_def)
qed

theorem move_AxesImage_colour_raises_witness:
  "move_AxesImage ex_cast ex_rgb_sel ''right'' = Inl ValueError"
  by (rule move_AxesImage_colour_raises) (simp_all add: ex_rgb_sel_def ex_rgb_image_def ex_image_def)

text \<open>
  C8.  For a Selection on an \<open>AxesImage\<close> that is not an instance of a subclass, whose
  array has two axes and whose target is the centre of a cell of the array: \<open>move\<close>
  with \<open>right\<close> goes to the centre of the next column, modulo the number of columns,
  and \<open>move\<close> with \<open>left\<close> from there returns the original Selection.  This holds for
  every column, the last one included, where \<open>right\<close> wraps to column 0 and \<open>left\<close>
  wraps back.
\<close>

theorem move_AxesImage_right_left:
  assumes "img_exact (sel_artist sel)"
    and "get_array_shape (sel_artist sel) = [ny, nx]"
    and "0 \<le> cx" and "cx < int nx" and "0 \<le> cy" and "cy < int ny"
    and "sel_target sel = cell_center (sel_artist sel) (nx, ny) (cx, cy)"
  shows "\<exists>s1. move_AxesImage nonfinite sel ''right'' = Inr s1
            \<and> sel_target s1 = cell_center (sel_artist sel) (nx, ny) ((cx + 1) mod int nx, cy)
            \<and> move_AxesImage nonfinite s1 ''left'' = Inr sel"
proof -
  from assms(3-6) have pos: "0 < nx" "0 < ny" by simp_all
  define s1 where
    "s1 = sel\<lparr>sel_target := cell_center (sel_artist sel) (nx, ny) ((cx + 1) mod int nx, cy)\<rparr>"
  have r: "key_delta ''right'' = Some (1, 0)" and l: "key_delta ''left'' = Some (-1, 0)"
    by (simp_all add: key_delta_def)
  have cy: "cy mod int ny = cy" using assms(5,6) by simp
  have step1: "move_AxesImage nonfinite sel ''right'' = Inr s1"
    using move_AxesImage_cell [OF assms(1,2) pos assms(3,5,7) r, of nonfinite] cy
    by (simp add: s1_def)
  have a1: "sel_artist s1 = sel_artist sel" by (simp add: s1_def)
  have t1: "sel_target s1 = cell_center (sel_artist s1) (nx, ny) ((cx + 1) mod int nx, cy)"
    by (simp add: s1_def)
  have nonneg: "0 \<le> (cx + 1) mod int nx" using pos by simp
  have ret: "((cx + 1) mod int nx - 1) mod int nx = cx"
    using assms(3,4) by (simp add: mod_simps)
  have "move_AxesImage nonfinite s1 ''left''
          = Inr (s1\<lparr>sel_target := cell_center (sel_artist s1) (nx, ny)
                                     (((cx + 1) mod int nx + - 1) mod int nx, (cy + 0) mod int ny)\<rparr>)"
    by (rule move_AxesImage_cell [OF _ _ pos nonneg assms(5) t1 l])
       (simp_all add: a1 assms(1,2))
  also have "\<dots> = Inr sel"
    by (simp add: ret cy a1 s1_def flip: assms(7))
  finally have step2: "move_AxesImage nonfinite s1 ''left'' = Inr sel" .
  from step1 step2 show ?thesis
    by (intro exI [of _ s1]) (simp add: s1_def)
qed

theorem move_AxesImage_right_left_witness:
  "move_AxesImage ex_cast (ex_image_sel (1/2, 1/2)) ''right'' = Inr (ex_image_sel (3/2, 1/2))
   \<and> move_AxesImage ex_cast (ex_image_sel (3/2, 1/2)) ''left'' = Inr (ex_image_sel (1/2, 1/2))"
proof -
  have "\<exists>s1. move_AxesImage ex_cast (ex_image_sel (1/2, 1/2)) ''right'' = Inr s1
            \<and> sel_target s1 = cell_center (sel_artist (ex_image_sel (1/2, 1/2))) (3, 1) ((0 + 1) mod int 3, 0)
            \<and> move_AxesImage ex_cast s1 ''left'' = Inr (ex_image_sel (1/2, 1/2))"
    by (rule move_AxesImage_right_left [where ny = 1])
       (simp_all add: ex_image_sel_def ex_image_def cell_center_def axis_center_pos)
  then obtain s1 where 1: "move_AxesImage ex_cast (ex_image_sel (1/2, 1/2)) ''right'' = Inr s1"
    and 2: "move_AxesImage ex_cast s1 ''left'' = Inr (ex_image_sel (1/2, 1/2))" by blast
  have "move_AxesImage ex_cast (ex_image_sel (1/2, 1/2)) ''right'' = Inr (ex_image_sel (3/2, 1/2))"
    by (simp add: move_AxesImage_def ex_image_sel_def ex_image_def key_delta_def ns_of_shape_def
          cell_of_def cell_center_def axis_index_def axis_center_def fsub_def fdiv_def fmul_def
          fadd_def astype_int_def np_mod_def)
  with 1 2 show ?thesis by simp
qed

text \<open>
  On the last column of a three-column image, \<open>right\<close> lands on column 0 and \<open>left\<close>
  comes back to column 2: the two moves end on the original cell, not on the opposite
  edge column.  On the same image with an RGB array, whose target is the centre of a
  cell as well, \<open>right\<close> raises ValueError.
\<close>

theorem move_AxesImage_wrap_counterexample:
  "move_AxesImage ex_cast (ex_image_sel (5/2, 1/2)) ''right'' = Inr (ex_image_sel (1/2, 1/2))
   \<and> move_AxesImage ex_cast (ex_image_sel (1/2, 1/2)) ''left'' = Inr (ex_image_sel (5/2, 1/2))
   \<and> sel_target (ex_image_sel (5/2, 1/2)) \<noteq> cell_center ex_image (3, 1) (0, 0)
   \<and> cell_of ex_cast ex_image (3, 1) (sel_target (ex_image_sel (5/2, 1/2))) = (2, 0)
   \<and> move_AxesImage ex_cast ex_rgb_sel ''right'' = Inl ValueError"
proof -
  have 1: "move_AxesImage ex_cast (ex_image_sel (5/2, 1/2)) ''right'' = Inr (ex_image_sel (1/2, 1/2))"
    by (simp add: move_AxesImage_def ex_image_sel_def ex_image_def key_delta_def ns_of_shape_def
          cell_of_def cell_center_def axis_index_def axis_center_def fsub_def fdiv_def fmul_def
          fadd_def astype_int_def np_mod_def)
  have 2: "move_AxesImage ex_cast (ex_image_sel (1/2, 1/2)) ''left'' = Inr (ex_image_sel (5/2, 1/2))"
    by (simp add: move_AxesImage_def ex_image_sel_def ex_image_def key_delta_def ns_of_shape_def
          cell_of_def cell_center_def axis_index_def axis_center_def fsub_def fdiv_def fmul_def
          fadd_def astype_int_def np_mod_def)
  have 3: "sel_target (ex_image_sel (5/2, 1/2)) \<noteq> cell_center ex_image (3, 1) (0, 0)"
    by (simp add: ex_image_sel_def ex_image_def cell_center_def axis_center_pos)
  have 4: "cell_of ex_cast ex_image (3, 1) (sel_target (ex_image_sel (5/2, 1/2))) = (2, 0)"
    by (simp add: cell_of_def ex_image_def ex_image_sel_def axis_index_def fsub_def fdiv_def
          fmul_def astype_int_def)
  have 5: "move_AxesImage ex_cast ex_rgb_sel ''right'' = Inl ValueError"
    by (simp add: move_AxesImage_def ex_rgb_sel_def ex_rgb_image_def ex_image_def ns_of_shape_def)
  from 1 2 3 4 5 show ?thesis by blast
qed

text \<open>A move on the example image keeps distance 3, annotation and extras.\<close>

lemma move_AxesImage_frame_example:
  "\<exists>s'. move_AxesImage ex_cast (ex_image_sel (5/2, 1/2)) ''up'' = Inr s'
      \<and> sel_artist s' = ex_image \<and> sel_dist s' = Some 3
      \<and> sel_annotation s' = Some 7 \<and> sel_extras s' = Some [1, 2]"
proof -
  have "img_exact (sel_artist (ex_image_sel (5/2, 1/2)))"
    and "length (get_array_shape (sel_artist (ex_image_sel (5/2, 1/2)))) = 2"
    by (simp_all add: ex_image_sel_def ex_image_def)
  moreover have "''up'' \<in> {''left'', ''right'', ''up'', ''down''}"
    by simp
  ultimately obtain s' where "move_AxesImage ex_cast (ex_image_sel (5/2, 1/2)) ''up'' = Inr s'"
    and "sel_artist s' = sel_artist (ex_image_sel (5/2, 1/2))"
    and "sel_dist s' = sel_dist (ex_image_sel (5/2, 1/2))"
    and "sel_annotation s' = sel_annotation (ex_image_sel (5/2, 1/2))"
    and "sel_extras s' = sel_extras (ex_image_sel (5/2, 1/2))"
    using move_AxesImage_frame [of "ex_image_sel (5/2, 1/2)" "''up''" ex_cast] by blast
  then show ?thesis
    by (simp add: ex_image_sel_def)
qed


section \<open>Properties of picking a line\<close>

text \<open>
  \<open>nanargmin\<close> returns the position of a smallest entry that is not NaN, and raises
  exactly when there is none.
\<close>

lemma nanargmin_from_NoneD:
  "nanargmin_from i best xs = None \<Longrightarrow> best = None \<and> (\<forall>x \<in> set xs. x = None)"
  by (induction i best xs rule: nanargmin_from.induct) (auto split: option.splits if_splits)

lemma nanargmin_from_SomeD:
  "nanargmin_from i best xs = Some (k, v) \<Longrightarrow>
     (best = Some (k, v) \<or> (\<exists>m < length xs. k = i + m \<and> xs ! m = Some v))
     \<and> (\<forall>j w. best = Some (j, w) \<longrightarrow> v \<le> w)
     \<and> (\<forall>m < length xs. \<forall>w. xs ! m = Some w \<longrightarrow> v \<le> w)"
proof (induction i best xs rule: nanargmin_from.induct)
  case (1 i best)
  then show ?case by simp
next
  case (2 i best xs)
  then show ?case
    by (fastforce simp: nth_Cons split: nat.splits)
next
  case (3 i best u xs)
  then show ?case
    by (fastforce simp: nth_Cons split: nat.splits option.splits if_splits)
qed

lemma nanargmin_InrD:
  assumes "nanargmin a = Inr k"
  shows "k < length a \<and> (\<exists>v. a ! k = Some v \<and> (\<forall>m < length a. \<forall>w. a ! m = Some w \<longrightarrow> v \<le> w))"
proof -
  from assms obtain v where "nanargmin_from 0 None a = Some (k, v)"
    by (auto simp: nanargmin_def split: option.splits)
  from nanargmin_from_SomeD [OF this] show ?thesis by auto
qed

lemma nanargmin_InlD:
  assumes "nanargmin a = Inl e"
  shows "e = ValueError \<and> (\<forall>x \<in> set a. x = None)"
  using assms nanargmin_from_NoneD [of 0 None a]
  by (auto simp: nanargmin_def split: option.splits)

lemma nanargmin_all_nan:
  assumes "\<forall>x \<in> set a. x = None"
  shows "nanargmin a = Inl ValueError"
proof (cases "nanargmin a")
  case (Inl e)
  with nanargmin_InlD show ?thesis by blast
next
  case (Inr k)
  from nanargmin_InrD [OF this] assms show ?thesis by (metis nth_mem option.distinct(1))
qed

text \<open>
  Every candidate has a distance that is a number, not NaN, and \<open>pymin_key\<close> on such
  candidates returns one of least distance.
\<close>

lemma sum_sq_Some: "sum_sq (Some a, Some b) = Some (a * a + b * b)"
  by (simp add: sum_sq_def fadd_def fmul_def)

lemma sum_sq_nonneg: "sum_sq v = Some r \<Longrightarrow> 0 \<le> r"
  by (cases v) (auto simp: sum_sq_def fadd_def fmul_def split: option.splits)

lemma fsqrt_nonneg: "0 \<le> r \<Longrightarrow> fsqrt (Some r) = Some (sqrt r)"
  by (simp add: fsqrt_def)

lemma marker_sel_dist:
  assumes "marker_sel artist ev = Inr s"
  shows "\<exists>d. sel_dist s = Some d \<and> 0 \<le> d"
proof -
  define d2s where "d2s = map (\<lambda>p. sum_sq (vsub (Some (event_x ev), Some (event_y ev)) p))
                            (map (transform artist) (get_xydata artist))"
  from assms obtain k where k: "nanargmin d2s = Inr k" and s: "sel_dist s = fsqrt (d2s ! k)"
    by (auto simp: marker_sel_def d2s_def Let_def split: sum.splits)
  from nanargmin_InrD [OF k] obtain v where lt: "k < length d2s" and v: "d2s ! k = Some v"
    by blast
  from lt v have "0 \<le> v"
    by (auto simp: d2s_def dest: sum_sq_nonneg)
  with s v show ?thesis by (simp add: fsqrt_nonneg)
qed

lemma polyline_d2s_nonneg:
  assumes "k < length (polyline_d2s xy xys)" and "polyline_d2s xy xys ! k = Some v"
  shows "0 \<le> v"
  using assms
  by (auto simp: polyline_d2s_def seg_d2_def split: prod.splits dest: sum_sq_nonneg)

lemma line_sel_dist:
  assumes "line_sel cb artist ev = Inr s"
  shows "\<exists>d. sel_dist s = Some d \<and> 0 \<le> d"
proof -
  define xys where "xys = (if is_affine artist
      then map (transform artist) (drawstyle_conv cb (get_drawstyle artist) (get_xydata artist))
      else transform_path artist (drawstyle_conv cb (get_drawstyle artist) (get_xydata artist)))"
  define d2s where "d2s = polyline_d2s (Some (event_x ev), Some (event_y ev)) xys"
  from assms obtain k where k: "nanargmin d2s = Inr k" and s: "sel_dist s = fsqrt (d2s ! k)"
    by (auto simp: line_sel_def d2s_def xys_def Let_def split: sum.splits)
  from nanargmin_InrD [OF k] obtain v where lt: "k < length d2s" and v: "d2s ! k = Some v"
    by blast
  from lt v have "0 \<le> v"
    unfolding d2s_def by (rule polyline_d2s_nonneg)
  with s v show ?thesis by (simp add: fsqrt_nonneg)
qed

lemma Line2D_sels_dist:
  assumes "Line2D_sels cb artist ev = Inr sels" and "s \<in> set sels"
  shows "\<exists>d. sel_dist s = Some d \<and> 0 \<le> d"
  using assms
  by (auto simp: Line2D_sels_def split: sum.splits if_splits dest: marker_sel_dist line_sel_dist)

lemma foldl_min_key:
  assumes "\<forall>y \<in> set (x # xs). \<exists>d. k y = Some d"
  shows "foldl (\<lambda>m y. if flt (k y) (k m) then y else m) x xs \<in> set (x # xs)
       \<and> (\<forall>y \<in> set (x # xs). \<exists>d d'. k (foldl (\<lambda>m y. if flt (k y) (k m) then y else m) x xs) = Some d
                \<and> k y = Some d' \<and> d \<le> d')"
  using assms
proof (induction xs arbitrary: x)
  case Nil
  then show ?case by auto
next
  case (Cons z zs)
  let ?x' = "if flt (k z) (k x) then z else x"
  from Cons.prems have "\<forall>y \<in> set (?x' # zs). \<exists>d. k y = Some d" by auto
  from Cons.IH [OF this] Cons.prems show ?case
    by (fastforce simp: flt_def split: if_splits)
qed

lemma pymin_key_min:
  assumes "\<forall>y \<in> set xs. \<exists>d. k y = Some d"
  shows "(case pymin_key k xs of
            None \<Rightarrow> xs = []
          | Some m \<Rightarrow> m \<in> set xs \<and> (\<exists>d. k m = Some d \<and> (\<forall>y \<in> set xs. \<exists>d'. k y = Some d' \<and> d \<le> d')))"
proof (cases xs)
  case Nil
  then show ?thesis by (simp add: pymin_key_def)
next
  case (Cons x rest)
  with assms foldl_min_key [of x rest k] show ?thesis
    by (simp add: pymin_key_def) (metis option.inject)
qed

text \<open>
  The example line at the example event: the nearest vertex is at distance 5, the
  nearest point of the polyline at distance 3.
\<close>

lemma sqrt_25: "sqrt 25 = 5" and sqrt_9: "sqrt 9 = 3" and sqrt_64: "sqrt 64 = 8"
  by (rule real_sqrt_unique; simp)+

lemma ex_marker_sel: "marker_sel ex_line ex_event = Inr ex_marker_cand"
  by (simp add: marker_sel_def ex_line_def ex_event_def ex_marker_cand_def nanargmin_def
        sum_sq_def vsub_def fadd_def fsub_def fmul_def fsqrt_def sqrt_25)

lemma ex_segments: "segments (get_xydata ex_line) = [((Some 0, Some 0), (Some 8, Some 0))]"
  by (simp add: segments_def ex_line_def)

lemma ex_seg_ds: "seg_ds (Some 0, Some 0) (Some 8, Some 0) = Some 8"
  by (simp add: seg_ds_def sum_sq_def vsub_def fadd_def fsub_def fmul_def fsqrt_def sqrt_64)

lemma ex_seg_us: "seg_us (Some 0, Some 0) (Some 8, Some 0) = (Some 1, Some 0)"
  by (simp add: seg_us_def ex_seg_ds vsub_def fsub_def fdiv_def)

lemma ex_seg_dot: "seg_dot (Some 4, Some 3) (Some 0, Some 0) (Some 8, Some 0) = Some 4"
  by (simp add: seg_dot_def ex_seg_ds ex_seg_us vdot_def vsub_def fsub_def fadd_def fmul_def fclip_def)

lemma ex_seg_proj:
  "seg_proj (Some 4, Some 3) (Some 0, Some 0) (Some 8, Some 0) = (Some 4, Some 0)"
  by (simp add: seg_proj_def ex_seg_dot ex_seg_us vadd_def vscale_def fadd_def fmul_def)

lemma ex_seg_d2: "seg_d2 (Some 4, Some 3) (Some 0, Some 0) (Some 8, Some 0) = Some 9"
  by (simp add: seg_d2_def ex_seg_proj sum_sq_def vsub_def fsub_def fadd_def fmul_def)

lemma ex_line_sel: "line_sel ex_cbook ex_line ex_event = Inr ex_line_cand"
proof -
  have xys: "map (transform ex_line) (drawstyle_conv ex_cbook (get_drawstyle ex_line) (get_xydata ex_line))
               = get_xydata ex_line"
    by (simp add: ex_line_def drawstyle_conv_def)
  have aff: "is_affine ex_line" and st: "get_drawstyle ex_line = draw_lines"
    and inv: "transData_inverted ex_line = (\<lambda>p. p)"
    by (simp_all add: ex_line_def)
  show ?thesis
    unfolding line_sel_def Let_def xys
    by (simp add: aff st inv polyline_ds_def polyline_dot_def polyline_projs_def polyline_d2s_def
          ex_segments ex_event_def ex_seg_ds ex_seg_dot ex_seg_proj ex_seg_d2 nanargmin_def
          fsqrt_def sqrt_9 line_index_def fdiv_def fadd_def ex_line_cand_def)
qed

lemma ex_Line2D_sels: "Line2D_sels ex_cbook ex_line ex_event = Inr [ex_marker_cand, ex_line_cand]"
proof -
  have "\<not> not_drawn (get_marker ex_line)" "\<not> not_drawn (get_linestyle ex_line)"
    "length (get_xydata ex_line) > 1"
    by (simp_all add: ex_line_def not_drawn_def)
  then show ?thesis
    by (simp add: Line2D_sels_def ex_marker_sel ex_line_sel)
qed

text \<open>
  C1.  When the candidates of a line have been computed, \<open>compute_pick\<close> either
  returns a candidate of least distance, and then this distance is strictly below the
  artist's pick radius; or it returns no match, and then no candidate has a distance
  below the pick radius (in particular when there is no candidate).
\<close>

theorem compute_pick_Line2D_least_within_radius:
  assumes "Line2D_sels cb artist ev = Inr sels"
  shows "(\<exists>s d. compute_pick_Line2D cb artist ev = Inr (Some s) \<and> s \<in> set sels
             \<and> sel_dist s = Some d \<and> d < pickradius artist
             \<and> (\<forall>t \<in> set sels. \<exists>d'. sel_dist t = Some d' \<and> d \<le> d'))
       \<or> (compute_pick_Line2D cb artist ev = Inr None
             \<and> (\<forall>t \<in> set sels. \<exists>d'. sel_dist t = Some d' \<and> pickradius artist \<le> d'))"
proof -
  have num: "\<forall>y \<in> set sels. \<exists>d. sel_dist y = Some d"
    using Line2D_sels_dist [OF assms] by blast
  show ?thesis
  proof (cases "pymin_key sel_dist sels")
    case None
    with pymin_key_min [OF num] have "sels = []" by simp
    with None assms show ?thesis by (simp add: compute_pick_Line2D_def)
  next
    case (Some m)
    with pymin_key_min [OF num] obtain d where m: "m \<in> set sels" and d: "sel_dist m = Some d"
      and least: "\<forall>y \<in> set sels. \<exists>d'. sel_dist y = Some d' \<and> d \<le> d'"
      by auto
    show ?thesis
    proof (cases "d < pickradius artist")
      case True
      with Some assms d have "compute_pick_Line2D cb artist ev = Inr (Some m)"
        by (simp add: compute_pick_Line2D_def flt_def)
      with m d True least show ?thesis by blast
    next
      case False
      with Some assms d have "compute_pick_Line2D cb artist ev = Inr None"
        by (simp add: compute_pick_Line2D_def flt_def)
      moreover from False least
      have "\<forall>t \<in> set sels. \<exists>d'. sel_dist t = Some d' \<and> pickradius artist \<le> d'"
        by fastforce
      ultimately show ?thesis by blast
    qed
  qed
qed

theorem compute_pick_Line2D_least_within_radius_witness:
  "\<exists>s d. compute_pick_Line2D ex_cbook ex_line ex_event = Inr (Some s)
        \<and> (s = ex_marker_cand \<or> s = ex_line_cand)
        \<and> sel_dist s = Some d \<and> d < 5 \<and> d \<le> 5 \<and> d \<le> 3"
proof -
  have "\<not> (\<forall>t \<in> set [ex_marker_cand, ex_line_cand].
             \<exists>d'. sel_dist t = Some d' \<and> pickradius ex_line \<le> d')"
    by (simp add: ex_line_cand_def ex_line_def)
  with compute_pick_Line2D_least_within_radius [OF ex_Line2D_sels]
  obtain s d where "compute_pick_Line2D ex_cbook ex_line ex_event = Inr (Some s)"
    and "s \<in> set [ex_marker_cand, ex_line_cand]"
    and "sel_dist s = Some d" and "d < pickradius ex_line"
    and "\<forall>t \<in> set [ex_marker_cand, ex_line_cand]. \<exists>d'. sel_dist t = Some d' \<and> d \<le> d'"
    by blast
  then show ?thesis
    by (intro exI [of _ s] exI [of _ d])
       (simp add: ex_marker_cand_def ex_line_cand_def ex_line_def)
qed

text \<open>The example evaluated: the candidate on the polyline is returned.\<close>

lemma ex_compute_pick: "compute_pick_Line2D ex_cbook ex_line ex_event = Inr (Some ex_line_cand)"
  unfolding compute_pick_Line2D_def ex_Line2D_sels
  by (simp add: pymin_key_def flt_def ex_marker_cand_def ex_line_cand_def ex_line_def)


lemma seg_ds_finite:
  "seg_ds (Some px, Some py) (Some qx, Some qy)
     = Some (sqrt ((qx - px) * (qx - px) + (qy - py) * (qy - py)))"
  by (simp add: seg_ds_def vsub_def fsub_def sum_sq_Some fsqrt_def not_less)

lemma seg_ds_zero_iff:
  "seg_ds (Some px, Some py) (Some qx, Some qy) = Some 0 \<longleftrightarrow> px = qx \<and> py = qy"
  by (auto simp: seg_ds_finite sum_squares_eq_zero_iff)

lemma seg_dot_zero_length:
  assumes "seg_ds p q = Some 0"
  shows "seg_us p q = (None, None)" and "seg_dot xy p q = None" and "seg_d2 xy p q = None"
proof -
  show us: "seg_us p q = (None, None)"
    using assms by (simp add: seg_us_def fdiv_def Let_def split: option.splits)
  then show dot: "seg_dot xy p q = None"
    by (simp add: seg_dot_def vdot_def fmul_def fadd_def fclip_def split: option.splits)
  then show "seg_d2 xy p q = None"
    by (simp add: seg_d2_def seg_proj_def vscale_def vadd_def vsub_def sum_sq_def us
          fmul_def fadd_def fsub_def split: option.splits)
qed




text \<open>A query point beyond the second end point is projected onto that end point.\<close>

lemma ex_clamped_end:
  "polyline_dot (Some 20, Some 3) (get_xydata ex_line) = [Some 8]"
  "polyline_projs (Some 20, Some 3) (get_xydata ex_line) = [(Some 8, Some 0)]"
  by (simp_all add: polyline_dot_def polyline_projs_def ex_segments seg_proj_def seg_dot_def
        ex_seg_ds ex_seg_us vdot_def vsub_def vadd_def vscale_def fsub_def fadd_def fmul_def fclip_def)

text \<open>
  Degenerate input.  A segment of length 0 among others is passed over (lemma
  \<open>seg_dot_zero_length\<close>).  When no entry is left, \<open>nanargmin\<close> raises, and nothing in
  \<open>compute_pick\<close> catches the exception.
\<close>

lemma marker_sel_all_nan:
  assumes "\<forall>p \<in> set (get_xydata artist). fst (transform artist p) = None \<or> snd (transform artist p) = None"
  shows "marker_sel artist ev = Inl ValueError"
proof -
  have "sum_sq (vsub xy p) = None" if "fst p = None \<or> snd p = None" for xy p
    using that by (auto simp: sum_sq_def vsub_def fsub_def fmul_def fadd_def split: option.splits)
  with assms have "nanargmin (map (\<lambda>p. sum_sq (vsub (Some (event_x ev), Some (event_y ev)) p))
                      (map (transform artist) (get_xydata artist))) = Inl ValueError"
    by (intro nanargmin_all_nan) auto
  then show ?thesis by (simp add: marker_sel_def)
qed

text \<open>
  C4.  With markers drawn, a line without points, and a line whose points all have a
  NaN screen coordinate, make \<open>compute_pick\<close> raise ValueError; it does not return
  no match there.
\<close>

theorem compute_pick_Line2D_raises:
  assumes "\<not> not_drawn (get_marker artist)"
    and "get_xydata artist = []
         \<or> (\<forall>p \<in> set (get_xydata artist). fst (transform artist p) = None \<or> snd (transform artist p) = None)"
  shows "compute_pick_Line2D cb artist ev = Inl ValueError"
proof -
  from assms(2) have "marker_sel artist ev = Inl ValueError"
    by (intro marker_sel_all_nan) auto
  with assms(1) show ?thesis
    by (simp add: compute_pick_Line2D_def Line2D_sels_def)
qed

theorem compute_pick_Line2D_raises_witness:
  "compute_pick_Line2D ex_cbook ex_empty_line ex_event = Inl ValueError
   \<and> compute_pick_Line2D ex_cbook (ex_line\<lparr>get_xydata := [(None, Some 1), (Some 2, None)]\<rparr>)
         ex_event = Inl ValueError"
proof -
  have "compute_pick_Line2D ex_cbook ex_empty_line ex_event = Inl ValueError"
    by (rule compute_pick_Line2D_raises) (simp_all add: ex_empty_line_def ex_line_def not_drawn_def)
  moreover
  have "compute_pick_Line2D ex_cbook (ex_line\<lparr>get_xydata := [(None, Some 1), (Some 2, None)]\<rparr>)
          ex_event = Inl ValueError"
    by (rule compute_pick_Line2D_raises) (simp_all add: ex_line_def not_drawn_def)
  ultimately show ?thesis by simp
qed

text \<open>
  The same happens in the line branch for a polyline of two coinciding points: its only
  segment has length 0.
\<close>

lemma line_sel_zero_length:
  assumes "is_affine artist" and "get_drawstyle artist = draw_lines"
    and "get_xydata artist = [p, p']"
    and "transform artist p = (Some x, Some y)" and "transform artist p' = (Some x, Some y)"
  shows "line_sel cb artist ev = Inl ValueError"
proof -
  have "seg_ds (Some x, Some y) (Some x, Some y) = Some 0"
    by (simp add: seg_ds_zero_iff)
  then have "seg_d2 (Some (event_x ev), Some (event_y ev)) (Some x, Some y) (Some x, Some y) = None"
    by (rule seg_dot_zero_length)
  then have "polyline_d2s (Some (event_x ev), Some (event_y ev)) [(Some x, Some y), (Some x, Some y)] = [None]"
    by (simp add: polyline_d2s_def segments_def)
  with assms show ?thesis
    by (simp add: line_sel_def drawstyle_conv_def nanargmin_def)
qed


section \<open>Properties of moving a selection on a line\<close>

text \<open>
  With \<open>left\<close> the new index is the ceiling of the index minus 1, with \<open>right\<close> the
  floor plus 1; the vertex is taken modulo the number of points, the new index is
  stored as it is, and the distance is 0.  From the last vertex \<open>right\<close> lands on
  vertex 0, from vertex 0 \<open>left\<close> lands on the last vertex.  Any other key keeps an
  integer index.
\<close>

lemma move_Line2D_left:
  assumes "array_index (sel_target sel) = Some idx" and "index_ceil idx = Inr c"
    and "get_xydata (sel_artist sel) = xys" and "xys \<noteq> []"
  shows "move_Line2D sel ''left''
           = Inr (sel\<lparr>sel_target := \<lparr>array_xy = xys ! nat ((c - 1) mod int (length xys)),
                                       array_index = Some (PyIntIndex (c - 1))\<rparr>,
                      sel_dist := Some 0\<rparr>)"
    and "nat ((c - 1) mod int (length xys)) < length xys"
  using assms by (simp_all add: move_Line2D_def new_idx_of_def nat_less_iff)

lemma move_Line2D_right:
  assumes "array_index (sel_target sel) = Some idx" and "index_floor idx = Inr f"
    and "get_xydata (sel_artist sel) = xys" and "xys \<noteq> []"
  shows "move_Line2D sel ''right''
           = Inr (sel\<lparr>sel_target := \<lparr>array_xy = xys ! nat ((f + 1) mod int (length xys)),
                                       array_index = Some (PyIntIndex (f + 1))\<rparr>,
                      sel_dist := Some 0\<rparr>)"
    and "nat ((f + 1) mod int (length xys)) < length xys"
  using assms by (simp_all add: move_Line2D_def new_idx_of_def nat_less_iff)

lemma move_Line2D_wrap:
  assumes "get_xydata (sel_artist sel) = xys" and "xys \<noteq> []"
  shows "array_index (sel_target sel) = Some (IntIndex (int (length xys) - 1)) \<Longrightarrow>
           \<exists>s'. move_Line2D sel ''right'' = Inr s' \<and> array_xy (sel_target s') = xys ! 0"
    and "array_index (sel_target sel) = Some (IntIndex 0) \<Longrightarrow>
           \<exists>s'. move_Line2D sel ''left'' = Inr s' \<and> array_xy (sel_target s') = xys ! (length xys - 1)"
proof -
  have len: "0 < int (length xys)" using assms(2) by simp
  then have m: "(- 1) mod int (length xys) = int (length xys) - 1"
    by (simp add: zmod_minus1)
  show "array_index (sel_target sel) = Some (IntIndex (int (length xys) - 1)) \<Longrightarrow>
           \<exists>s'. move_Line2D sel ''right'' = Inr s' \<and> array_xy (sel_target s') = xys ! 0"
    using assms by (simp add: move_Line2D_def new_idx_of_def)
  show "array_index (sel_target sel) = Some (IntIndex 0) \<Longrightarrow>
           \<exists>s'. move_Line2D sel ''left'' = Inr s' \<and> array_xy (sel_target s') = xys ! (length xys - 1)"
    using assms m by (simp add: move_Line2D_def new_idx_of_def nat_diff_distrib')
qed

lemma move_Line2D_other_key_int:
  assumes "array_index (sel_target sel) = Some idx" and "idx = IntIndex i \<or> idx = PyIntIndex i"
    and "key \<noteq> ''left''" and "key \<noteq> ''right''"
    and "get_xydata (sel_artist sel) = xys" and "xys \<noteq> []"
  shows "move_Line2D sel key
           = Inr (sel\<lparr>sel_target := \<lparr>array_xy = xys ! nat (i mod int (length xys)),
                                       array_index = Some idx\<rparr>,
                      sel_dist := Some 0\<rparr>)"
  using assms by (auto simp: move_Line2D_def new_idx_of_def)

text \<open>
  C5.  With a key other than \<open>left\<close> and \<open>right\<close>, \<open>move\<close> on a line keeps the index
  as it is and then uses it as an array index: for the \<open>Index\<close> object of a step plot
  it raises TypeError, for a float index IndexError.  No Selection is returned.
\<close>

theorem move_Line2D_other_key_raises:
  assumes "key \<noteq> ''left''" and "key \<noteq> ''right''"
  shows "(array_index (sel_target sel) = Some (StepIndex ix) \<longrightarrow> move_Line2D sel key = Inl TypeError)
       \<and> (array_index (sel_target sel) = Some (FloatIndex f) \<longrightarrow> move_Line2D sel key = Inl IndexError)"
  using assms by (simp add: move_Line2D_def new_idx_of_def)

theorem move_Line2D_other_key_raises_witness:
  "move_Line2D ex_step_sel ''up'' = Inl TypeError
   \<and> move_Line2D ex_line_cand ''up'' = Inl IndexError"
  using move_Line2D_other_key_raises [of "''up''" ex_step_sel "\<lparr>Index_int = 0, Index_x = Some (1/2), Index_y = Some 0\<rparr>"]
        move_Line2D_other_key_raises [of "''up''" ex_line_cand _ "Some (1/2)"]
  by (simp add: ex_step_sel_def ex_line_cand_def)

end
